theory Spec2Isabelle
  imports Complex_Main
begin

section \<open>PjRt registry and client initialisation (pjrt\_registry.cpp)\<close>

text \<open>
  A shallow embedding of \<^verbatim>\<open>torch_xla/csrc/runtime/pjrt_registry.cpp\<close>: the plugin
  registry (\<^verbatim>\<open>pjrt_plugins_\<close>, \<^verbatim>\<open>RegisterPjRtPlugin\<close>, \<^verbatim>\<open>GetPjRtPlugin\<close>), the GPU
  allocator configuration (\<^verbatim>\<open>GetGpuAllocatorConfig\<close>) and the dispatch of
  \<^verbatim>\<open>InitializePjRt\<close>.

  The process environment, the global registry and the XLA/PJRT library functions are
  explicit arguments. Every call of a library function is recorded, in program order,
  in a list of events returned next to the outcome, so that what is handed to client
  construction can be stated.
\<close>

subsection \<open>Configuration source (sys\_util) and environment keys (env\_vars.h)\<close>

text \<open>
  Modelled from the spec: \<^verbatim>\<open>sys_util::GetEnvString\<close>, \<^verbatim>\<open>GetEnvBool\<close>, \<^verbatim>\<open>GetEnvInt\<close> and
  \<^verbatim>\<open>GetEnvDouble\<close> are declared in \<^verbatim>\<open>sys_util.h\<close>, which is not among the sources. The
  spec describes them as "string/bool/int/double lookups by key, each with a
  caller-supplied default" that resolve "named configuration values from the process
  environment, with defaults". The environment is a partial map from names to strings;
  the conversion of a present string to a boolean, an integer or a double is a
  parameter (\<open>parse_bool\<close>, \<open>parse_int\<close>, \<open>parse_double\<close>).

  The source stores every integer it reads in a C++ \<^verbatim>\<open>int\<close> and only compares it with 1
  or passes it on; no arithmetic is done. \<open>parse_int\<close> stands for the value the \<^verbatim>\<open>int\<close>
  variable holds after the conversion, so integers are \<^typ>\<open>int\<close>. Likewise the doubles
  (the memory fraction) are only stored, never computed with, and are \<^typ>\<open>real\<close>.
\<close>

record sys_util =
  getenv :: "string \<rightharpoonup> string"
  parse_bool :: "string \<Rightarrow> bool"
  parse_int :: "string \<Rightarrow> int"
  parse_double :: "string \<Rightarrow> real"

definition GetEnvString :: "sys_util \<Rightarrow> string \<Rightarrow> string \<Rightarrow> string" where
  "GetEnvString cfg name defval =
     (case getenv cfg name of None \<Rightarrow> defval | Some v \<Rightarrow> v)"

definition GetEnvBool :: "sys_util \<Rightarrow> string \<Rightarrow> bool \<Rightarrow> bool" where
  "GetEnvBool cfg name defval =
     (case getenv cfg name of None \<Rightarrow> defval | Some v \<Rightarrow> parse_bool cfg v)"

definition GetEnvInt :: "sys_util \<Rightarrow> string \<Rightarrow> int \<Rightarrow> int" where
  "GetEnvInt cfg name defval =
     (case getenv cfg name of None \<Rightarrow> defval | Some v \<Rightarrow> parse_int cfg v)"

definition GetEnvDouble :: "sys_util \<Rightarrow> string \<Rightarrow> real \<Rightarrow> real" where
  "GetEnvDouble cfg name defval =
     (case getenv cfg name of None \<Rightarrow> defval | Some v \<Rightarrow> parse_double cfg v)"

text \<open>
  The names of the environment variables are the constants of \<^verbatim>\<open>env_vars.h\<close>
  (namespace \<^verbatim>\<open>env\<close>), which is not among the sources: they are taken as a parameter.
  The keys the source writes as string literals (\<^verbatim>\<open>"RANK"\<close>, \<^verbatim>\<open>"LOCAL_RANK"\<close>,
  \<^verbatim>\<open>"WORLD_SIZE"\<close>, \<^verbatim>\<open>"LOCAL_WORLD_SIZE"\<close>, \<^verbatim>\<open>"MASTER_ADDR"\<close>,
  \<^verbatim>\<open>"XLA_COORDINATOR_PORT"\<close>, \<^verbatim>\<open>"PJRT_LIBRARY_PATH"\<close>) are literals here too.
\<close>

record env_vars =
  kEnvPjRtDevice :: string
  kEnvPjRtLocalRank :: string
  kEnvPjRtLocalProcessCount :: string
  kEnvPjrtDynamicPlugins :: string
  kEnvPjrtAllocatorCudaAsync :: string
  kEnvPjrtAllocatorPreallocate :: string
  kEnvPjrtAllocatorFraction :: string
  kEnvPjrtAsyncCpuClient :: string
  kEnvPjrtAsyncGpuClient :: string
  kEnvNumCpu :: string
  kEnvTpuLibraryPath :: string
  kEnvInferredTpuLibraryPath :: string
  kEnvXpuLibraryPath :: string
  kEnvNeuronLibraryPath :: string

subsection \<open>Data of the XLA and PJRT libraries\<close>

text \<open>\<^verbatim>\<open>absl::Status\<close> with a non-OK code: the canonical code and the message.\<close>

datatype StatusCode =
    kCancelled | kUnknown | kInvalidArgument | kDeadlineExceeded | kNotFound
  | kAlreadyExists | kPermissionDenied | kResourceExhausted | kFailedPrecondition
  | kAborted | kOutOfRange | kUnimplemented | kInternal | kUnavailable | kDataLoss
  | kUnauthenticated

datatype Status = Status (code: StatusCode) (message: string)

definition InvalidArgumentError :: "string \<Rightarrow> Status" where
  "InvalidArgumentError msg = Status kInvalidArgument msg"

text \<open>Opaque handles: a runtime client, a loaded plugin API, a coordinator and its
  distributed runtime client.\<close>

datatype PjRtClient = PjRtClient nat
datatype PJRT_Api = PJRT_Api nat
datatype XlaCoordinator = XlaCoordinator nat
datatype DistributedRuntimeClient = DistributedRuntimeClient nat

text \<open>\<^verbatim>\<open>xla::GetDistributedKeyValueStore(client, key_prefix)\<close>: a view of the distributed
  client's store under a key prefix.\<close>

datatype KeyValueStore =
  GetDistributedKeyValueStore (kv_client: DistributedRuntimeClient) (key_prefix: string)

text \<open>\<^verbatim>\<open>xla::PjRtValueType\<close>, the values of the client-creation options.\<close>

datatype PjRtValueType =
    VString string | VBool bool | VInt64 int | VInt64List "int list" | VFloat real

text \<open>\<^verbatim>\<open>xla::GpuAllocatorConfig\<close>: the three fields the source assigns.\<close>

datatype Kind = kDefault | kPlatform | kBFC | kCudaAsync

record GpuAllocatorConfig =
  kind :: Kind
  memory_fraction :: real
  preallocate :: bool

text \<open>\<^verbatim>\<open>xla::GpuClientOptions\<close>: the fields the source assigns (lines 204 to 210).\<close>

record GpuClientOptions =
  allocator_config :: GpuAllocatorConfig
  node_id :: int
  num_nodes :: int
  allowed_devices :: "int set option"
  platform_name :: string
  should_stage_host_to_device_transfers :: bool
  kv_store :: "KeyValueStore option"

subsection \<open>Plugin descriptors and the registry\<close>

text \<open>
  \<^verbatim>\<open>PjRtPlugin\<close>: the three virtual methods. \<^verbatim>\<open>library_path\<close> may read the
  environment when it is called, as \<^verbatim>\<open>LibraryPlugin\<close> does.
\<close>

record PjRtPlugin =
  library_path :: "sys_util \<Rightarrow> string"
  client_create_options :: "string \<rightharpoonup> PjRtValueType"
  requires_xla_coordinator :: bool

definition LibraryPlugin :: PjRtPlugin where
  "LibraryPlugin =
     \<lparr> library_path = (\<lambda>cfg. GetEnvString cfg ''PJRT_LIBRARY_PATH'' ''''),
       client_create_options = Map.empty,
       requires_xla_coordinator = False \<rparr>"

type_synonym registry = "string \<rightharpoonup> PjRtPlugin"

text \<open>The initial value of the global \<^verbatim>\<open>pjrt_plugins_\<close> (line 45).\<close>

definition pjrt_plugins_init :: registry where
  "pjrt_plugins_init = [''LIBRARY'' \<mapsto> LibraryPlugin]"

text \<open>\<^verbatim>\<open>GetPjRtPlugin\<close>: \<open>None\<close> is the null pointer returned for an absent key.\<close>

definition GetPjRtPlugin :: "registry \<Rightarrow> string \<Rightarrow> PjRtPlugin option" where
  "GetPjRtPlugin pjrt_plugins device_type = pjrt_plugins device_type"

text \<open>\<^verbatim>\<open>RegisterPjRtPlugin\<close> assigns \<^verbatim>\<open>pjrt_plugins_[name] = plugin\<close>; the updated
  registry is returned.\<close>

definition RegisterPjRtPlugin :: "string \<Rightarrow> PjRtPlugin \<Rightarrow> registry \<Rightarrow> registry" where
  "RegisterPjRtPlugin name plugin pjrt_plugins = pjrt_plugins(name \<mapsto> plugin)"

subsection \<open>Library functions and macros\<close>

text \<open>
  The functions of XLA, PJRT and of this repository's headers that the source calls,
  and the macros of \<^verbatim>\<open>status.h\<close>, as parameters. A \<^verbatim>\<open>StatusOr\<close> result is a sum with the
  error on the left. A returned \<^verbatim>\<open>std::unique_ptr<xla::PjRtClient>\<close> may be null
  (\<open>None\<close>); \<^verbatim>\<open>XlaCoordinator::Create\<close> yields a coordinator, which the source
  dereferences at once (lines 120 and 198). The macros take the source line of their use
  and the status they wrap or propagate.
\<close>

record externals =
  XlaCoordinator_Create :: "int \<Rightarrow> int \<Rightarrow> string \<Rightarrow> string \<Rightarrow> Status + XlaCoordinator"
  XlaCoordinator_GetClient :: "XlaCoordinator \<Rightarrow> DistributedRuntimeClient"
  kDefaultCoordinatorPort :: string
  LoadPjrtPlugin :: "string \<Rightarrow> string \<Rightarrow> Status + PJRT_Api"
  InitializePjrtPlugin :: "string \<Rightarrow> Status option"
  GetCApiClient ::
    "string \<Rightarrow> (string \<rightharpoonup> PjRtValueType) \<Rightarrow> KeyValueStore option \<Rightarrow> Status + PjRtClient option"
  GetPjRtCpuClient :: "bool \<Rightarrow> int \<Rightarrow> Status + PjRtClient option"
  GetStreamExecutorGpuClient :: "GpuClientOptions \<Rightarrow> Status + PjRtClient option"
  GpuAllocatorConfig_default :: GpuAllocatorConfig
  XLA_ERROR_WITH_LOCATION :: "nat \<Rightarrow> Status \<Rightarrow> Status"
  XLA_RETURN_IF_ERROR :: "nat \<Rightarrow> Status \<Rightarrow> Status"
  XLA_ASSIGN_OR_RETURN :: "nat \<Rightarrow> Status \<Rightarrow> Status"

text \<open>\<^verbatim>\<open>absl::AsciiStrToLower\<close> and \<^verbatim>\<open>absl::AsciiStrToUpper\<close>.\<close>

definition ascii_tolower :: "char \<Rightarrow> char" where
  "ascii_tolower c =
     (let n = (of_char c :: nat) in if 65 \<le> n \<and> n \<le> 90 then char_of (n + 32) else c)"

definition ascii_toupper :: "char \<Rightarrow> char" where
  "ascii_toupper c =
     (let n = (of_char c :: nat) in if 97 \<le> n \<and> n \<le> 122 then char_of (n - 32) else c)"

definition AsciiStrToLower :: "string \<Rightarrow> string" where
  "AsciiStrToLower s = map ascii_tolower s"

definition AsciiStrToUpper :: "string \<Rightarrow> string" where
  "AsciiStrToUpper s = map ascii_toupper s"

text \<open>The calls with an effect outside the function, in the order they are made.
  The verbose log lines (\<^verbatim>\<open>TF_VLOG\<close>) are left out: they change no state.\<close>

datatype event =
    Call_InitializeLog
  | Call_XlaCoordinator_Create int int string string
  | Call_LoadPjrtPlugin string string
  | Call_InitializePjrtPlugin string
  | Call_GetCApiClient string "string \<rightharpoonup> PjRtValueType" "KeyValueStore option"
  | Call_RegisterProfilerForPlugin PJRT_Api
  | Call_GetPjRtCpuClient bool int
  | Call_GetStreamExecutorGpuClient GpuClientOptions
  | Call_TORCH_WARN string

subsection \<open>GetGpuAllocatorConfig (lines 47 to 62)\<close>

definition GetGpuAllocatorConfig :: "externals \<Rightarrow> env_vars \<Rightarrow> sys_util \<Rightarrow> GpuAllocatorConfig" where
  "GetGpuAllocatorConfig ext keys cfg =
     (let allocator_config = GpuAllocatorConfig_default ext in
      if GetEnvString cfg (kEnvPjrtAllocatorCudaAsync keys) '''' = '''' \<and>
         GetEnvString cfg (kEnvPjrtAllocatorPreallocate keys) '''' = '''' \<and>
         GetEnvString cfg (kEnvPjrtAllocatorFraction keys) '''' = ''''
      then allocator_config
      else
        (let allocator_config =
               (if GetEnvBool cfg (kEnvPjrtAllocatorCudaAsync keys) False
                then allocator_config\<lparr>kind := kCudaAsync\<rparr> else allocator_config)
         in allocator_config
              \<lparr> preallocate := GetEnvBool cfg (kEnvPjrtAllocatorPreallocate keys) True,
                memory_fraction := GetEnvDouble cfg (kEnvPjrtAllocatorFraction keys) 0.75 \<rparr>))"

subsection \<open>Topology resolution\<close>

record topology =
  local_process_rank :: int
  global_process_rank :: int
  local_world_size :: int
  global_world_size :: int

text \<open>The four integers of the dynamic-plugin path (lines 95 to 103).\<close>

definition plugin_topology :: "env_vars \<Rightarrow> sys_util \<Rightarrow> topology" where
  "plugin_topology keys cfg =
     (let lr = GetEnvInt cfg (kEnvPjRtLocalRank keys) (GetEnvInt cfg ''LOCAL_RANK'' 0);
          gr = GetEnvInt cfg ''RANK'' lr;
          lws = GetEnvInt cfg (kEnvPjRtLocalProcessCount keys)
                  (GetEnvInt cfg ''LOCAL_WORLD_SIZE'' 1);
          gws = GetEnvInt cfg ''WORLD_SIZE'' lws
      in \<lparr> local_process_rank = lr, global_process_rank = gr,
           local_world_size = lws, global_world_size = gws \<rparr>)"

text \<open>The four integers of the \<^verbatim>\<open>"CUDA"\<close> path (lines 165 to 168).\<close>

definition gpu_topology :: "env_vars \<Rightarrow> sys_util \<Rightarrow> topology" where
  "gpu_topology keys cfg =
     (let lr = GetEnvInt cfg (kEnvPjRtLocalRank keys) 0;
          gr = GetEnvInt cfg ''RANK'' lr;
          lws = GetEnvInt cfg ''LOCAL_WORLD_SIZE'' 1;
          gws = GetEnvInt cfg ''WORLD_SIZE'' lws
      in \<lparr> local_process_rank = lr, global_process_rank = gr,
           local_world_size = lws, global_world_size = gws \<rparr>)"

subsection \<open>InitializePjRt (lines 78 to 230)\<close>

text \<open>
  A branch of the dispatch either returns early with an error (\<open>Inl\<close>) or falls
  through to the check of line 228 with the values of the locals \<^verbatim>\<open>client\<close> and
  \<^verbatim>\<open>coordinator\<close> (\<open>Inr\<close>); \<open>None\<close> is a null \<^verbatim>\<open>unique_ptr\<close>.
\<close>

type_synonym branch =
  "event list \<times> (Status + PjRtClient option \<times> XlaCoordinator option)"

text \<open>Lines 124 to 135: load the plugin, initialise it, build the client.\<close>

definition InitializePjRt_plugin_client ::
  "externals \<Rightarrow> sys_util \<Rightarrow> PjRtPlugin \<Rightarrow> string \<Rightarrow> XlaCoordinator option \<Rightarrow>
   KeyValueStore option \<Rightarrow> branch" where
  "InitializePjRt_plugin_client ext cfg plugin device_type coordinator kvs =
     (let lib = library_path plugin cfg;
          ev1 = [Call_LoadPjrtPlugin (AsciiStrToLower device_type) lib]
      in case LoadPjrtPlugin ext (AsciiStrToLower device_type) lib of
           Inl st \<Rightarrow> (ev1, Inl (XLA_ASSIGN_OR_RETURN ext 124 st))
         | Inr c_api \<Rightarrow>
             (let ev2 = ev1 @ [Call_InitializePjrtPlugin device_type]
              in case InitializePjrtPlugin ext device_type of
                   Some st \<Rightarrow> (ev2, Inl (XLA_RETURN_IF_ERROR ext 128 st))
                 | None \<Rightarrow>
                     (let create_options = client_create_options plugin;
                          ev3 = ev2 @ [Call_GetCApiClient (AsciiStrToUpper device_type)
                                         create_options kvs]
                      in case GetCApiClient ext (AsciiStrToUpper device_type)
                                create_options kvs of
                           Inl st \<Rightarrow> (ev3, Inl (XLA_ASSIGN_OR_RETURN ext 130 st))
                         | Inr client \<Rightarrow>
                             (ev3 @ [Call_RegisterProfilerForPlugin c_api],
                              Inr (client, coordinator)))))"

text \<open>Lines 88 to 135: the registry holds a plugin for the identifier.\<close>

definition InitializePjRt_plugin ::
  "externals \<Rightarrow> env_vars \<Rightarrow> sys_util \<Rightarrow> PjRtPlugin \<Rightarrow> string \<Rightarrow> branch" where
  "InitializePjRt_plugin ext keys cfg plugin device_type =
     (let ev0 = [Call_InitializeLog]
      in if requires_xla_coordinator plugin then
           (let t = plugin_topology keys cfg;
                master_addr = GetEnvString cfg ''MASTER_ADDR'' ''localhost'';
                port = GetEnvString cfg ''XLA_COORDINATOR_PORT'' (kDefaultCoordinatorPort ext);
                ev1 = ev0 @ [Call_XlaCoordinator_Create (global_process_rank t)
                               (global_world_size t) master_addr port]
            in case XlaCoordinator_Create ext (global_process_rank t)
                      (global_world_size t) master_addr port of
                 Inl st \<Rightarrow> (ev1, Inl (XLA_ASSIGN_OR_RETURN ext 115 st))
               | Inr coordinator \<Rightarrow>
                   apfst (append ev1)
                     (InitializePjRt_plugin_client ext cfg plugin device_type
                        (Some coordinator)
                        (Some (GetDistributedKeyValueStore
                                 (XlaCoordinator_GetClient ext coordinator) ''pjrt:''))))
         else apfst (append ev0)
                (InitializePjRt_plugin_client ext cfg plugin device_type None None))"

text \<open>Lines 138 to 142.\<close>

definition InitializePjRt_cpu :: "externals \<Rightarrow> env_vars \<Rightarrow> sys_util \<Rightarrow> branch" where
  "InitializePjRt_cpu ext keys cfg =
     (let async = GetEnvBool cfg (kEnvPjrtAsyncCpuClient keys) True;
          cpu_device_count = GetEnvInt cfg (kEnvNumCpu keys) 1;
          ev = [Call_GetPjRtCpuClient async cpu_device_count]
      in case GetPjRtCpuClient ext async cpu_device_count of
           Inl st \<Rightarrow> (ev, Inl (XLA_ASSIGN_OR_RETURN ext 141 st))
         | Inr client \<Rightarrow> (ev, Inr (client, None)))"

text \<open>Lines 144 to 155.\<close>

definition InitializePjRt_tpu :: "externals \<Rightarrow> env_vars \<Rightarrow> sys_util \<Rightarrow> branch" where
  "InitializePjRt_tpu ext keys cfg =
     (let tpu_library_path =
            GetEnvString cfg (kEnvTpuLibraryPath keys)
              (GetEnvString cfg (kEnvInferredTpuLibraryPath keys) ''libtpu.so'');
          ev1 = [Call_InitializeLog, Call_LoadPjrtPlugin ''tpu'' tpu_library_path]
      in case LoadPjrtPlugin ext ''tpu'' tpu_library_path of
           Inl st \<Rightarrow> (ev1, Inl (XLA_ASSIGN_OR_RETURN ext 151 st))
         | Inr c_api \<Rightarrow>
             (let ev2 = ev1 @ [Call_InitializePjrtPlugin ''tpu'']
              in case InitializePjrtPlugin ext ''tpu'' of
                   Some st \<Rightarrow> (ev2, Inl (XLA_RETURN_IF_ERROR ext 153 st))
                 | None \<Rightarrow>
                     (let ev3 = ev2 @ [Call_GetCApiClient ''TPU'' Map.empty None]
                      in case GetCApiClient ext ''TPU'' Map.empty None of
                           Inl st \<Rightarrow> (ev3, Inl (XLA_ASSIGN_OR_RETURN ext 154 st))
                         | Inr client \<Rightarrow>
                             (ev3 @ [Call_RegisterProfilerForPlugin c_api],
                              Inr (client, None)))))"

text \<open>Lines 203 to 210: the options of the GPU client.\<close>

definition gpu_client_options ::
  "externals \<Rightarrow> env_vars \<Rightarrow> sys_util \<Rightarrow> topology \<Rightarrow> int set option \<Rightarrow>
   KeyValueStore option \<Rightarrow> GpuClientOptions" where
  "gpu_client_options ext keys cfg t allowed kvs =
     \<lparr> allocator_config = GetGpuAllocatorConfig ext keys cfg,
       node_id = global_process_rank t,
       num_nodes = global_world_size t,
       allowed_devices = allowed,
       platform_name = ''gpu'',
       should_stage_host_to_device_transfers = True,
       kv_store = kvs \<rparr>"

definition cuda_deprecation_warning :: string where
  "cuda_deprecation_warning =
     ''The XLA:CUDA device is deprecated in release 2.8. '' @
     ''Future releases might remove XLA:CUDA support entirely. '' @
     ''Use the PyTorch native CUDA backend, instead.''"

text \<open>Lines 160 to 211. The local \<^verbatim>\<open>async\<close> of line 164 is read and never used.\<close>

definition InitializePjRt_cuda :: "externals \<Rightarrow> env_vars \<Rightarrow> sys_util \<Rightarrow> branch" where
  "InitializePjRt_cuda ext keys cfg =
     (let ev0 = [Call_TORCH_WARN cuda_deprecation_warning];
          t = gpu_topology keys cfg;
          allowed = (if local_world_size t > 1 then Some {local_process_rank t} else None)
      in if global_world_size t > 1 then
           (let master_addr = GetEnvString cfg ''MASTER_ADDR'' ''localhost'';
                port = GetEnvString cfg ''XLA_COORDINATOR_PORT'' (kDefaultCoordinatorPort ext);
                ev1 = ev0 @ [Call_XlaCoordinator_Create (global_process_rank t)
                               (global_world_size t) master_addr port]
            in case XlaCoordinator_Create ext (global_process_rank t)
                      (global_world_size t) master_addr port of
                 Inl st \<Rightarrow> (ev1, Inl (XLA_ASSIGN_OR_RETURN ext 193 st))
               | Inr coordinator \<Rightarrow>
                   (let options = gpu_client_options ext keys cfg t allowed
                          (Some (GetDistributedKeyValueStore
                                   (XlaCoordinator_GetClient ext coordinator) ''gpu:''));
                        ev2 = ev1 @ [Call_GetStreamExecutorGpuClient options]
                    in case GetStreamExecutorGpuClient ext options of
                         Inl st \<Rightarrow> (ev2, Inl (XLA_ASSIGN_OR_RETURN ext 211 st))
                       | Inr client \<Rightarrow> (ev2, Inr (client, Some coordinator))))
         else
           (let options = gpu_client_options ext keys cfg t allowed None;
                ev2 = ev0 @ [Call_GetStreamExecutorGpuClient options]
            in case GetStreamExecutorGpuClient ext options of
                 Inl st \<Rightarrow> (ev2, Inl (XLA_ASSIGN_OR_RETURN ext 211 st))
               | Inr client \<Rightarrow> (ev2, Inr (client, None))))"

text \<open>Lines 213 to 216 and 218 to 222: load a library by name, then build the client.
  The arguments are the plugin name, the library path, the client name and the lines of
  the two macros.\<close>

definition InitializePjRt_library ::
  "externals \<Rightarrow> string \<Rightarrow> string \<Rightarrow> string \<Rightarrow> nat \<Rightarrow> nat \<Rightarrow> branch" where
  "InitializePjRt_library ext plugin_name path client_name l1 l2 =
     (let ev1 = [Call_LoadPjrtPlugin plugin_name path]
      in case LoadPjrtPlugin ext plugin_name path of
           Inl st \<Rightarrow> (ev1, Inl (XLA_RETURN_IF_ERROR ext l1 st))
         | Inr c_api \<Rightarrow>
             (let ev2 = ev1 @ [Call_GetCApiClient client_name Map.empty None]
              in case GetCApiClient ext client_name Map.empty None of
                   Inl st \<Rightarrow> (ev2, Inl (XLA_ASSIGN_OR_RETURN ext l2 st))
                 | Inr client \<Rightarrow> (ev2, Inr (client, None))))"

text \<open>The message of line 224: \<^verbatim>\<open>absl::StrCat("Unknown ", env::kEnvPjRtDevice, ": '",
  device_type, "'")\<close>.\<close>

definition unknown_device_message :: "env_vars \<Rightarrow> string \<Rightarrow> string" where
  "unknown_device_message keys device_type =
     ''Unknown '' @ kEnvPjRtDevice keys @ '': '' @ [CHR 0x27] @ device_type @ [CHR 0x27]"

text \<open>The outcome of a call: an error status, the tuple of the client and the
  coordinator (which may be null), or the failure of \<^verbatim>\<open>ABSL_CHECK(client)\<close>, which
  aborts the process.\<close>

datatype InitOutcome =
    ReturnError Status
  | ReturnOk PjRtClient "XlaCoordinator option"
  | CheckFailed

definition InitializePjRt_dispatch ::
  "externals \<Rightarrow> env_vars \<Rightarrow> sys_util \<Rightarrow> registry \<Rightarrow> string \<Rightarrow> branch" where
  "InitializePjRt_dispatch ext keys cfg pjrt_plugins device_type =
     (if GetEnvBool cfg (kEnvPjrtDynamicPlugins keys) False \<and> device_type \<noteq> ''CPU'' then
        (case GetPjRtPlugin pjrt_plugins device_type of
           Some plugin \<Rightarrow> InitializePjRt_plugin ext keys cfg plugin device_type
         | None \<Rightarrow> ([], Inr (None, None)))
      else if device_type = ''CPU'' then InitializePjRt_cpu ext keys cfg
      else if device_type = ''TPU'' then InitializePjRt_tpu ext keys cfg
      else if device_type = ''TPU_LEGACY'' then
        ([], Inl (XLA_ERROR_WITH_LOCATION ext 157
                    (InvalidArgumentError ''TPU_LEGACY client is no longer available.'')))
      else if device_type = ''CUDA'' then InitializePjRt_cuda ext keys cfg
      else if device_type = ''XPU'' then
        InitializePjRt_library ext ''xpu''
          (GetEnvString cfg (kEnvXpuLibraryPath keys) ''libxpu.so'') ''XPU'' 214 216
      else if device_type = ''NEURON'' then
        InitializePjRt_library ext ''NEURON''
          (GetEnvString cfg (kEnvNeuronLibraryPath keys) ''libneuronpjrt.so'') ''NEURON''
          219 222
      else
        ([], Inl (XLA_ERROR_WITH_LOCATION ext 224
                    (InvalidArgumentError (unknown_device_message keys device_type)))))"

text \<open>\<^verbatim>\<open>InitializePjRt\<close>: the dispatch, then the check and the return of lines 228
  and 229.\<close>

definition InitializePjRt ::
  "externals \<Rightarrow> env_vars \<Rightarrow> sys_util \<Rightarrow> registry \<Rightarrow> string \<Rightarrow> event list \<times> InitOutcome" where
  "InitializePjRt ext keys cfg pjrt_plugins device_type =
     (case InitializePjRt_dispatch ext keys cfg pjrt_plugins device_type of
        (tr, Inl st) \<Rightarrow> (tr, ReturnError st)
      | (tr, Inr (None, coordinator)) \<Rightarrow> (tr, CheckFailed)
      | (tr, Inr (Some client, coordinator)) \<Rightarrow> (tr, ReturnOk client coordinator))"

subsection \<open>A sample configuration\<close>

text \<open>
  Concrete values for the parameters, used to run the definitions: the upstream names
  of the environment variables, a decimal reader for integers, and library functions
  that always succeed and leave a status unchanged when it is propagated.
\<close>

definition sample_env_vars :: env_vars where
  "sample_env_vars =
     \<lparr> kEnvPjRtDevice = ''PJRT_DEVICE'',
       kEnvPjRtLocalRank = ''PJRT_LOCAL_PROCESS_RANK'',
       kEnvPjRtLocalProcessCount = ''PJRT_LOCAL_PROCESS_COUNT'',
       kEnvPjrtDynamicPlugins = ''PJRT_DYNAMIC_PLUGINS'',
       kEnvPjrtAllocatorCudaAsync = ''PJRT_ALLOCATOR_CUDA_ASYNC'',
       kEnvPjrtAllocatorPreallocate = ''PJRT_ALLOCATOR_PREALLOCATE'',
       kEnvPjrtAllocatorFraction = ''PJRT_ALLOCATOR_FRACTION'',
       kEnvPjrtAsyncCpuClient = ''PJRT_CPU_ASYNC_CLIENT'',
       kEnvPjrtAsyncGpuClient = ''PJRT_GPU_ASYNC_CLIENT'',
       kEnvNumCpu = ''CPU_NUM_DEVICES'',
       kEnvTpuLibraryPath = ''TPU_LIBRARY_PATH'',
       kEnvInferredTpuLibraryPath = ''PTXLA_TPU_LIBRARY_PATH'',
       kEnvXpuLibraryPath = ''XPU_LIBRARY_PATH'',
       kEnvNeuronLibraryPath = ''NEURON_LIBRARY_PATH'' \<rparr>"

fun sample_digits :: "int \<Rightarrow> string \<Rightarrow> int" where
  "sample_digits acc [] = acc"
| "sample_digits acc (c # cs) =
     (let n = (of_char c :: nat)
      in if 48 \<le> n \<and> n \<le> 57 then sample_digits (10 * acc + (int n - 48)) cs else acc)"

definition sample_parse_int :: "string \<Rightarrow> int" where
  "sample_parse_int s = sample_digits 0 s"

definition sample_sys_util :: "(string \<rightharpoonup> string) \<Rightarrow> sys_util" where
  "sample_sys_util env =
     \<lparr> getenv = env,
       parse_bool = (\<lambda>s. s = ''1'' \<or> s = ''true''),
       parse_int = sample_parse_int,
       parse_double = (\<lambda>s. if s = ''0.5'' then 0.5 else 0) \<rparr>"

definition sample_externals :: externals where
  "sample_externals =
     \<lparr> XlaCoordinator_Create = (\<lambda>rank world addr port. Inr (XlaCoordinator 7)),
       XlaCoordinator_GetClient = (\<lambda>c. DistributedRuntimeClient 7),
       kDefaultCoordinatorPort = ''8547'',
       LoadPjrtPlugin = (\<lambda>name path. Inr (PJRT_Api 1)),
       InitializePjrtPlugin = (\<lambda>name. None),
       GetCApiClient = (\<lambda>name opts kvs. Inr (Some (PjRtClient 1))),
       GetPjRtCpuClient = (\<lambda>async n. Inr (Some (PjRtClient 2))),
       GetStreamExecutorGpuClient = (\<lambda>opts. Inr (Some (PjRtClient 3))),
       GpuAllocatorConfig_default =
         \<lparr> kind = kDefault, memory_fraction = 0.75, preallocate = True \<rparr>,
       XLA_ERROR_WITH_LOCATION = (\<lambda>line st. st),
       XLA_RETURN_IF_ERROR = (\<lambda>line st. st),
       XLA_ASSIGN_OR_RETURN = (\<lambda>line st. st) \<rparr>"

text \<open>A plugin that needs the coordinator, registered as \<^verbatim>\<open>"MYACCEL"\<close>.\<close>

definition sample_plugin :: PjRtPlugin where
  "sample_plugin =
     \<lparr> library_path = (\<lambda>cfg. ''libmyaccel.so''),
       client_create_options = Map.empty,
       requires_xla_coordinator = True \<rparr>"

definition sample_registry :: registry where
  "sample_registry = RegisterPjRtPlugin ''MYACCEL'' sample_plugin pjrt_plugins_init"

section \<open>Properties\<close>

lemmas sample_defs =
  sample_env_vars_def sample_sys_util_def sample_externals_def sample_parse_int_def
  sample_plugin_def sample_registry_def pjrt_plugins_init_def RegisterPjRtPlugin_def

lemmas getenv_defs = GetEnvString_def GetEnvBool_def GetEnvInt_def GetEnvDouble_def

lemmas init_defs =
  InitializePjRt_def InitializePjRt_dispatch_def InitializePjRt_plugin_def
  InitializePjRt_plugin_client_def InitializePjRt_cpu_def InitializePjRt_tpu_def
  InitializePjRt_cuda_def InitializePjRt_library_def GetPjRtPlugin_def

lemma AsciiStrToLower_MYACCEL: "AsciiStrToLower ''MYACCEL'' = ''myaccel''"
  by code_simp

lemma AsciiStrToUpper_MYACCEL: "AsciiStrToUpper ''MYACCEL'' = ''MYACCEL''"
  by code_simp

lemma dynamic_plugins_unset:
  "getenv cfg (kEnvPjrtDynamicPlugins keys) = None \<Longrightarrow>
   \<not> GetEnvBool cfg (kEnvPjrtDynamicPlugins keys) False"
  by (simp add: GetEnvBool_def)

subsection \<open>The plugin registry\<close>

text \<open>
  Claim C9. For every key and every pair of descriptors, registering the second
  descriptor under a key that already holds the first overwrites the entry: the lookup
  that follows returns the second descriptor, and so not the first when the two differ.
  The lookup of an absent key returns the null pointer (\<open>None\<close>); \<open>GetPjRtPlugin\<close>
  has no error result.
\<close>

theorem RegisterPjRtPlugin_overwrites:
  "GetPjRtPlugin (RegisterPjRtPlugin name d2 (RegisterPjRtPlugin name d1 pjrt_plugins)) name
     = Some d2
   \<and> (d2 \<noteq> d1 \<longrightarrow>
        GetPjRtPlugin (RegisterPjRtPlugin name d2 (RegisterPjRtPlugin name d1 pjrt_plugins))
          name \<noteq> Some d1)
   \<and> (absent \<notin> dom pjrt_plugins \<longrightarrow> GetPjRtPlugin pjrt_plugins absent = None)"
  by (auto simp: GetPjRtPlugin_def RegisterPjRtPlugin_def)

theorem RegisterPjRtPlugin_overwrites_witness:
  "sample_plugin \<noteq> LibraryPlugin
   \<and> ''ROCM'' \<notin> dom pjrt_plugins_init
   \<and> GetPjRtPlugin
        (RegisterPjRtPlugin ''LIBRARY'' sample_plugin
           (RegisterPjRtPlugin ''LIBRARY'' LibraryPlugin pjrt_plugins_init)) ''LIBRARY''
       = Some sample_plugin
   \<and> GetPjRtPlugin
        (RegisterPjRtPlugin ''LIBRARY'' sample_plugin
           (RegisterPjRtPlugin ''LIBRARY'' LibraryPlugin pjrt_plugins_init)) ''LIBRARY''
       \<noteq> Some LibraryPlugin
   \<and> GetPjRtPlugin pjrt_plugins_init ''ROCM'' = None"
proof -
  have h1: "sample_plugin \<noteq> LibraryPlugin"
  proof
    assume "sample_plugin = LibraryPlugin"
    then have "requires_xla_coordinator sample_plugin = requires_xla_coordinator LibraryPlugin"
      by simp
    then show False by (simp add: sample_plugin_def LibraryPlugin_def)
  qed
  have h2: "''ROCM'' \<notin> dom pjrt_plugins_init"
    by (simp add: pjrt_plugins_init_def)
  from RegisterPjRtPlugin_overwrites
         [of "''LIBRARY''" sample_plugin LibraryPlugin pjrt_plugins_init "''ROCM''"] h1 h2
  show ?thesis by simp
qed

subsection \<open>The allocator configuration\<close>

text \<open>
  Claim C7. When the three allocator variables (asynchronous allocator, preallocate,
  fraction) are unset, \<open>GetGpuAllocatorConfig\<close> returns the default-constructed
  configuration. When only the fraction variable is set, to a string that reads as 0.5,
  the result has \<open>memory_fraction = 0.5\<close> and \<open>preallocate = True\<close> (and the kind of
  the default).
\<close>

theorem GetGpuAllocatorConfig_unset_and_fraction:
  "(getenv cfg (kEnvPjrtAllocatorCudaAsync keys) = None \<and>
    getenv cfg (kEnvPjrtAllocatorPreallocate keys) = None \<and>
    getenv cfg (kEnvPjrtAllocatorFraction keys) = None
    \<longrightarrow> GetGpuAllocatorConfig ext keys cfg = GpuAllocatorConfig_default ext)
   \<and> (getenv cfg (kEnvPjrtAllocatorCudaAsync keys) = None \<and>
      getenv cfg (kEnvPjrtAllocatorPreallocate keys) = None \<and>
      getenv cfg (kEnvPjrtAllocatorFraction keys) = Some s \<and> s \<noteq> '''' \<and>
      parse_double cfg s = 0.5
      \<longrightarrow> memory_fraction (GetGpuAllocatorConfig ext keys cfg) = 0.5 \<and>
          preallocate (GetGpuAllocatorConfig ext keys cfg) = True \<and>
          kind (GetGpuAllocatorConfig ext keys cfg) = kind (GpuAllocatorConfig_default ext))"
  by (simp add: GetGpuAllocatorConfig_def getenv_defs Let_def)

theorem GetGpuAllocatorConfig_unset_and_fraction_witness:
  "GetGpuAllocatorConfig sample_externals sample_env_vars (sample_sys_util Map.empty)
     = \<lparr> kind = kDefault, memory_fraction = 0.75, preallocate = True \<rparr>
   \<and> GetGpuAllocatorConfig sample_externals sample_env_vars
        (sample_sys_util [''PJRT_ALLOCATOR_FRACTION'' \<mapsto> ''0.5''])
     = \<lparr> kind = kDefault, memory_fraction = 0.5, preallocate = True \<rparr>"
proof -
  let ?c0 = "sample_sys_util Map.empty"
  let ?c1 = "sample_sys_util [''PJRT_ALLOCATOR_FRACTION'' \<mapsto> ''0.5'']"
  have a0: "getenv ?c0 (kEnvPjrtAllocatorCudaAsync sample_env_vars) = None \<and>
            getenv ?c0 (kEnvPjrtAllocatorPreallocate sample_env_vars) = None \<and>
            getenv ?c0 (kEnvPjrtAllocatorFraction sample_env_vars) = None"
    by (simp add: sample_defs)
  have a1: "getenv ?c1 (kEnvPjrtAllocatorCudaAsync sample_env_vars) = None \<and>
            getenv ?c1 (kEnvPjrtAllocatorPreallocate sample_env_vars) = None \<and>
            getenv ?c1 (kEnvPjrtAllocatorFraction sample_env_vars) = Some ''0.5'' \<and>
            ''0.5'' \<noteq> '''' \<and> parse_double ?c1 ''0.5'' = 0.5"
    by (simp add: sample_defs)
  from GetGpuAllocatorConfig_unset_and_fraction
         [where cfg = ?c0 and keys = sample_env_vars and ext = sample_externals] a0
  have r0: "GetGpuAllocatorConfig sample_externals sample_env_vars ?c0
              = GpuAllocatorConfig_default sample_externals"
    by blast
  from GetGpuAllocatorConfig_unset_and_fraction
         [where cfg = ?c1 and keys = sample_env_vars and ext = sample_externals
            and s = "''0.5''"] a1
  have r1: "memory_fraction (GetGpuAllocatorConfig sample_externals sample_env_vars ?c1) = 0.5 \<and>
            preallocate (GetGpuAllocatorConfig sample_externals sample_env_vars ?c1) = True \<and>
            kind (GetGpuAllocatorConfig sample_externals sample_env_vars ?c1)
              = kind (GpuAllocatorConfig_default sample_externals)"
    by blast
  have d: "GpuAllocatorConfig_default sample_externals
             = \<lparr> kind = kDefault, memory_fraction = 0.75, preallocate = True \<rparr>"
    by (simp add: sample_externals_def)
  from r0 r1 d show ?thesis by (auto intro: GpuAllocatorConfig.equality)
qed

subsection \<open>Topology resolution\<close>

text \<open>
  Claim C8, amended. On both paths that resolve a topology (the dynamic-plugin path and
  the \<^verbatim>\<open>"CUDA"\<close> path): when none of the keys the path reads for its topology is
  set (whatever else the environment holds), the resolved values are local rank 0,
  global rank 0, local world size 1 and global world size 1; when \<^verbatim>\<open>"RANK"\<close> is not set
  the global rank is the local rank; when \<^verbatim>\<open>"RANK"\<close> is set the global rank is the value
  read from it (which may be equal to the local rank).
\<close>

theorem topology_defaults_and_rank_override:
  "(getenv cfg (kEnvPjRtLocalRank keys) = None \<and> getenv cfg ''LOCAL_RANK'' = None \<and>
    getenv cfg ''RANK'' = None \<and>
    getenv cfg (kEnvPjRtLocalProcessCount keys) = None \<and>
    getenv cfg ''LOCAL_WORLD_SIZE'' = None \<and> getenv cfg ''WORLD_SIZE'' = None \<longrightarrow>
      plugin_topology keys cfg =
        \<lparr> local_process_rank = 0, global_process_rank = 0,
          local_world_size = 1, global_world_size = 1 \<rparr>)
   \<and> (getenv cfg (kEnvPjRtLocalRank keys) = None \<and> getenv cfg ''RANK'' = None \<and>
      getenv cfg ''LOCAL_WORLD_SIZE'' = None \<and> getenv cfg ''WORLD_SIZE'' = None \<longrightarrow>
      gpu_topology keys cfg =
        \<lparr> local_process_rank = 0, global_process_rank = 0,
          local_world_size = 1, global_world_size = 1 \<rparr>)
   \<and> (getenv cfg ''RANK'' = None \<longrightarrow>
        global_process_rank (plugin_topology keys cfg)
          = local_process_rank (plugin_topology keys cfg) \<and>
        global_process_rank (gpu_topology keys cfg)
          = local_process_rank (gpu_topology keys cfg))
   \<and> (\<forall>v. getenv cfg ''RANK'' = Some v \<longrightarrow>
        global_process_rank (plugin_topology keys cfg) = parse_int cfg v \<and>
        global_process_rank (gpu_topology keys cfg) = parse_int cfg v)"
  by (simp add: plugin_topology_def gpu_topology_def GetEnvInt_def Let_def)

theorem topology_defaults_and_rank_override_witness:
  "GetEnvBool (sample_sys_util [''PJRT_DYNAMIC_PLUGINS'' \<mapsto> ''1''])
     (kEnvPjrtDynamicPlugins sample_env_vars) False
   \<and> plugin_topology sample_env_vars (sample_sys_util [''PJRT_DYNAMIC_PLUGINS'' \<mapsto> ''1'']) =
     \<lparr> local_process_rank = 0, global_process_rank = 0,
       local_world_size = 1, global_world_size = 1 \<rparr>
   \<and> gpu_topology sample_env_vars (sample_sys_util [''LOCAL_RANK'' \<mapsto> ''5'']) =
     \<lparr> local_process_rank = 0, global_process_rank = 0,
       local_world_size = 1, global_world_size = 1 \<rparr>
   \<and> global_process_rank
        (plugin_topology sample_env_vars (sample_sys_util [''LOCAL_RANK'' \<mapsto> ''5'']))
       = local_process_rank
           (plugin_topology sample_env_vars (sample_sys_util [''LOCAL_RANK'' \<mapsto> ''5'']))
   \<and> local_process_rank
        (plugin_topology sample_env_vars (sample_sys_util [''LOCAL_RANK'' \<mapsto> ''5''])) = 5
   \<and> getenv (sample_sys_util [''LOCAL_RANK'' \<mapsto> ''1'', ''RANK'' \<mapsto> ''3'']) ''RANK''
       = Some ''3''
   \<and> global_process_rank
        (plugin_topology sample_env_vars
           (sample_sys_util [''LOCAL_RANK'' \<mapsto> ''1'', ''RANK'' \<mapsto> ''3''])) = 3
   \<and> global_process_rank
        (gpu_topology sample_env_vars
           (sample_sys_util [''LOCAL_RANK'' \<mapsto> ''1'', ''RANK'' \<mapsto> ''3''])) = 3"
proof -
  let ?cp = "sample_sys_util [''PJRT_DYNAMIC_PLUGINS'' \<mapsto> ''1'']"
  let ?cg = "sample_sys_util [''LOCAL_RANK'' \<mapsto> ''5'']"
  let ?c1 = "sample_sys_util [''LOCAL_RANK'' \<mapsto> ''1'', ''RANK'' \<mapsto> ''3'']"
  have flag: "GetEnvBool ?cp (kEnvPjrtDynamicPlugins sample_env_vars) False"
    by (simp add: GetEnvBool_def sample_defs)
  have ap: "getenv ?cp (kEnvPjRtLocalRank sample_env_vars) = None \<and>
            getenv ?cp ''LOCAL_RANK'' = None \<and> getenv ?cp ''RANK'' = None \<and>
            getenv ?cp (kEnvPjRtLocalProcessCount sample_env_vars) = None \<and>
            getenv ?cp ''LOCAL_WORLD_SIZE'' = None \<and> getenv ?cp ''WORLD_SIZE'' = None"
    by (simp add: sample_defs)
  have ag: "getenv ?cg (kEnvPjRtLocalRank sample_env_vars) = None \<and>
            getenv ?cg ''RANK'' = None \<and>
            getenv ?cg ''LOCAL_WORLD_SIZE'' = None \<and> getenv ?cg ''WORLD_SIZE'' = None"
    by (simp add: sample_defs)
  have a1: "getenv ?c1 ''RANK'' = Some ''3''" by (simp add: sample_defs)
  have p: "parse_int ?c1 ''3'' = 3" by (simp add: sample_defs)
  have l5: "local_process_rank (plugin_topology sample_env_vars ?cg) = 5"
    by (simp add: plugin_topology_def GetEnvInt_def sample_defs)
  from topology_defaults_and_rank_override [where cfg = ?cp and keys = sample_env_vars] ap
  have rp: "plugin_topology sample_env_vars ?cp =
              \<lparr> local_process_rank = 0, global_process_rank = 0,
                local_world_size = 1, global_world_size = 1 \<rparr>"
    by simp
  from topology_defaults_and_rank_override [where cfg = ?cg and keys = sample_env_vars] ag
  have rg: "gpu_topology sample_env_vars ?cg =
              \<lparr> local_process_rank = 0, global_process_rank = 0,
                local_world_size = 1, global_world_size = 1 \<rparr>
            \<and> global_process_rank (plugin_topology sample_env_vars ?cg)
                = local_process_rank (plugin_topology sample_env_vars ?cg)"
    by simp
  from topology_defaults_and_rank_override [where cfg = ?c1 and keys = sample_env_vars] a1
  have r1: "global_process_rank (plugin_topology sample_env_vars ?c1) = parse_int ?c1 ''3''
            \<and> global_process_rank (gpu_topology sample_env_vars ?c1) = parse_int ?c1 ''3''"
    by simp
  from flag rp rg r1 a1 p l5 show ?thesis by simp
qed

text \<open>
  Claim C8 as stated fails: with \<^verbatim>\<open>RANK=0\<close> in the environment and nothing else, the
  override is supplied and the global rank is still equal to the local rank (both 0),
  so "equal exactly when no override is supplied" does not hold.
\<close>

theorem topology_rank_override_counterexample:
  "\<not> (global_process_rank (gpu_topology sample_env_vars (sample_sys_util [''RANK'' \<mapsto> ''0'']))
        = local_process_rank (gpu_topology sample_env_vars (sample_sys_util [''RANK'' \<mapsto> ''0'']))
      \<longleftrightarrow> getenv (sample_sys_util [''RANK'' \<mapsto> ''0'']) ''RANK'' = None)"
  by (simp add: gpu_topology_def GetEnvInt_def Let_def sample_defs)

text \<open>
  Claim C10. The two paths read the local rank differently. The \<^verbatim>\<open>"CUDA"\<close> path reads
  it from the backend-specific key \<open>kEnvPjRtLocalRank\<close> alone, with default 0, and so
  ignores \<^verbatim>\<open>"LOCAL_RANK"\<close>; the dynamic-plugin path reads the same key and falls back
  to \<^verbatim>\<open>"LOCAL_RANK"\<close>, then to 0. So when \<^verbatim>\<open>"LOCAL_RANK"\<close> is set and the
  backend-specific key is not, the \<^verbatim>\<open>"CUDA"\<close> path resolves local rank 0 and the
  dynamic-plugin path resolves the value of \<^verbatim>\<open>"LOCAL_RANK"\<close>.
\<close>

theorem local_rank_fallback_differs:
  "local_process_rank (gpu_topology keys cfg) = GetEnvInt cfg (kEnvPjRtLocalRank keys) 0
   \<and> local_process_rank (plugin_topology keys cfg)
       = GetEnvInt cfg (kEnvPjRtLocalRank keys) (GetEnvInt cfg ''LOCAL_RANK'' 0)
   \<and> (getenv cfg (kEnvPjRtLocalRank keys) = None \<and> getenv cfg ''LOCAL_RANK'' = Some v \<longrightarrow>
        local_process_rank (gpu_topology keys cfg) = 0 \<and>
        local_process_rank (plugin_topology keys cfg) = parse_int cfg v)"
  by (simp add: gpu_topology_def plugin_topology_def GetEnvInt_def Let_def)

theorem local_rank_fallback_differs_witness:
  "getenv (sample_sys_util [''LOCAL_RANK'' \<mapsto> ''2'']) (kEnvPjRtLocalRank sample_env_vars) = None
   \<and> getenv (sample_sys_util [''LOCAL_RANK'' \<mapsto> ''2'']) ''LOCAL_RANK'' = Some ''2''
   \<and> local_process_rank
        (gpu_topology sample_env_vars (sample_sys_util [''LOCAL_RANK'' \<mapsto> ''2''])) = 0
   \<and> local_process_rank
        (plugin_topology sample_env_vars (sample_sys_util [''LOCAL_RANK'' \<mapsto> ''2''])) = 2
   \<and> local_process_rank
        (gpu_topology sample_env_vars
           (sample_sys_util [''PJRT_LOCAL_PROCESS_RANK'' \<mapsto> ''3'', ''LOCAL_RANK'' \<mapsto> ''2''])) = 3
   \<and> local_process_rank
        (plugin_topology sample_env_vars
           (sample_sys_util [''PJRT_LOCAL_PROCESS_RANK'' \<mapsto> ''3'', ''LOCAL_RANK'' \<mapsto> ''2''])) = 3"
proof -
  let ?c = "sample_sys_util [''LOCAL_RANK'' \<mapsto> ''2'']"
  let ?d = "sample_sys_util [''PJRT_LOCAL_PROCESS_RANK'' \<mapsto> ''3'', ''LOCAL_RANK'' \<mapsto> ''2'']"
  have h: "getenv ?c (kEnvPjRtLocalRank sample_env_vars) = None \<and>
           getenv ?c ''LOCAL_RANK'' = Some ''2''"
    by (simp add: sample_defs)
  have p: "parse_int ?c ''2'' = 2" by (simp add: sample_defs)
  have g: "GetEnvInt ?d (kEnvPjRtLocalRank sample_env_vars) 0 = 3"
          "GetEnvInt ?d (kEnvPjRtLocalRank sample_env_vars) (GetEnvInt ?d ''LOCAL_RANK'' 0) = 3"
    by (simp_all add: GetEnvInt_def sample_defs)
  from local_rank_fallback_differs
         [where cfg = ?c and keys = sample_env_vars and v = "''2''"] h
  have rc: "local_process_rank (gpu_topology sample_env_vars ?c) = 0 \<and>
            local_process_rank (plugin_topology sample_env_vars ?c) = parse_int ?c ''2''"
    by simp
  from local_rank_fallback_differs [where cfg = ?d and keys = sample_env_vars]
  have rd: "local_process_rank (gpu_topology sample_env_vars ?d)
              = GetEnvInt ?d (kEnvPjRtLocalRank sample_env_vars) 0 \<and>
            local_process_rank (plugin_topology sample_env_vars ?d)
              = GetEnvInt ?d (kEnvPjRtLocalRank sample_env_vars) (GetEnvInt ?d ''LOCAL_RANK'' 0)"
    by simp
  from rc rd h p g show ?thesis by simp
qed

subsection \<open>The dispatch of InitializePjRt\<close>

text \<open>
  Claim C1. If the dynamic-plugins flag is enabled, the identifier is not \<^verbatim>\<open>"CPU"\<close> and
  the registry holds no plugin for the identifier, \<open>InitializePjRt\<close> calls no library
  function, builds no client and reaches \<^verbatim>\<open>ABSL_CHECK(client)\<close> with a null client: the
  check fails, and no error status is returned.
\<close>

theorem InitializePjRt_unregistered_plugin_check_fails:
  assumes "GetEnvBool cfg (kEnvPjrtDynamicPlugins keys) False"
    and "device_type \<noteq> ''CPU''"
    and "GetPjRtPlugin pjrt_plugins device_type = None"
  shows "InitializePjRt_dispatch ext keys cfg pjrt_plugins device_type = ([], Inr (None, None))
       \<and> InitializePjRt ext keys cfg pjrt_plugins device_type = ([], CheckFailed)"
  using assms by (simp add: InitializePjRt_def InitializePjRt_dispatch_def)

theorem InitializePjRt_unregistered_plugin_check_fails_witness:
  "GetEnvBool (sample_sys_util [''PJRT_DYNAMIC_PLUGINS'' \<mapsto> ''1''])
     (kEnvPjrtDynamicPlugins sample_env_vars) False
   \<and> ''ROCM'' \<noteq> ''CPU''
   \<and> GetPjRtPlugin pjrt_plugins_init ''ROCM'' = None
   \<and> InitializePjRt sample_externals sample_env_vars
        (sample_sys_util [''PJRT_DYNAMIC_PLUGINS'' \<mapsto> ''1'']) pjrt_plugins_init ''ROCM''
      = ([], CheckFailed)"
proof -
  let ?c = "sample_sys_util [''PJRT_DYNAMIC_PLUGINS'' \<mapsto> ''1'']"
  have h1: "GetEnvBool ?c (kEnvPjrtDynamicPlugins sample_env_vars) False"
    by (simp add: GetEnvBool_def sample_defs)
  have h2: "''ROCM'' \<noteq> ''CPU''" by simp
  have h3: "GetPjRtPlugin pjrt_plugins_init ''ROCM'' = None"
    by (simp add: GetPjRtPlugin_def pjrt_plugins_init_def)
  from InitializePjRt_unregistered_plugin_check_fails [OF h1 h2 h3, of sample_externals]
    h1 h2 h3
  show ?thesis by simp
qed

text \<open>
  Claim C2, amended. When the dynamic-plugins flag is not enabled (unset, or set to a
  value that reads as false), \<open>InitializePjRt\<close> with \<^verbatim>\<open>"TPU_LEGACY"\<close> calls no library
  function and returns the InvalidArgument error "TPU_LEGACY client is no longer
  available." (wrapped by \<^verbatim>\<open>XLA_ERROR_WITH_LOCATION\<close>), whatever the rest of the
  environment and the registry are; it returns no client.
\<close>

theorem InitializePjRt_TPU_LEGACY_unavailable:
  assumes "\<not> GetEnvBool cfg (kEnvPjrtDynamicPlugins keys) False"
  shows "InitializePjRt ext keys cfg pjrt_plugins ''TPU_LEGACY'' =
           ([], ReturnError (XLA_ERROR_WITH_LOCATION ext 157
                  (InvalidArgumentError ''TPU_LEGACY client is no longer available.'')))"
  using assms by (simp add: InitializePjRt_def InitializePjRt_dispatch_def)

theorem InitializePjRt_TPU_LEGACY_unavailable_witness:
  "\<not> GetEnvBool (sample_sys_util [''WORLD_SIZE'' \<mapsto> ''4''])
       (kEnvPjrtDynamicPlugins sample_env_vars) False
   \<and> InitializePjRt sample_externals sample_env_vars
        (sample_sys_util [''WORLD_SIZE'' \<mapsto> ''4'']) sample_registry ''TPU_LEGACY''
      = ([], ReturnError
               (Status kInvalidArgument ''TPU_LEGACY client is no longer available.''))"
proof -
  let ?c = "sample_sys_util [''WORLD_SIZE'' \<mapsto> ''4'']"
  have h: "\<not> GetEnvBool ?c (kEnvPjrtDynamicPlugins sample_env_vars) False"
    by (simp add: GetEnvBool_def sample_defs)
  from InitializePjRt_TPU_LEGACY_unavailable [OF h, of sample_externals sample_registry] h
  show ?thesis by (simp add: sample_externals_def InvalidArgumentError_def)
qed

text \<open>
  Claim C2 as stated fails: the dynamic-plugin path is taken before the identifier is
  compared with \<^verbatim>\<open>"TPU_LEGACY"\<close>. With the flag enabled and a plugin registered under
  \<^verbatim>\<open>"TPU_LEGACY"\<close>, the call loads that plugin and returns its client.
\<close>

theorem InitializePjRt_TPU_LEGACY_counterexample:
  "snd (InitializePjRt sample_externals sample_env_vars
          (sample_sys_util [''PJRT_DYNAMIC_PLUGINS'' \<mapsto> ''1''])
          (RegisterPjRtPlugin ''TPU_LEGACY'' sample_plugin pjrt_plugins_init) ''TPU_LEGACY'')
     = ReturnOk (PjRtClient 1) (Some (XlaCoordinator 7))"
  by (simp add: init_defs getenv_defs sample_defs Let_def)

text \<open>
  Claim C3 says that every identifier outside the built-in set and absent from the
  registry gets an InvalidArgument error naming it. The code does so only when the
  dynamic-plugins flag is not enabled (the lemma below). With the flag enabled the
  missing plugin is not reported: for the identifier \<^verbatim>\<open>"FOO"\<close> and the initial registry
  the call ends in the failed \<^verbatim>\<open>ABSL_CHECK(client)\<close>.
\<close>

theorem InitializePjRt_unknown_dynamic_check_fails:
  "InitializePjRt sample_externals sample_env_vars
     (sample_sys_util [''PJRT_DYNAMIC_PLUGINS'' \<mapsto> ''true'']) pjrt_plugins_init ''FOO''
     = ([], CheckFailed)"
  by (simp add: init_defs getenv_defs sample_defs)

lemma InitializePjRt_unknown_static:
  assumes "\<not> GetEnvBool cfg (kEnvPjrtDynamicPlugins keys) False"
    and "device_type \<notin> {''CPU'', ''TPU'', ''TPU_LEGACY'', ''CUDA'', ''XPU'', ''NEURON''}"
  shows "InitializePjRt ext keys cfg pjrt_plugins device_type =
           ([], ReturnError (XLA_ERROR_WITH_LOCATION ext 224
                  (InvalidArgumentError (unknown_device_message keys device_type))))"
  using assms by (simp add: InitializePjRt_def InitializePjRt_dispatch_def)

subsection \<open>The CUDA path\<close>

text \<open>
  Claim C4. On the \<^verbatim>\<open>"CUDA"\<close> path (dynamic-plugins flag not enabled), for every
  successful call: when the resolved global world size is 1, \<^verbatim>\<open>XlaCoordinator::Create\<close>
  is not called and the returned coordinator is null; when it is greater than 1, the
  coordinator is created with the resolved global rank and world size and the returned
  coordinator is that one.
\<close>

theorem InitializePjRt_cuda_coordinator:
  assumes "\<not> GetEnvBool cfg (kEnvPjrtDynamicPlugins keys) False"
    and "InitializePjRt ext keys cfg pjrt_plugins ''CUDA'' = (tr, ReturnOk client coordinator)"
  shows "(global_world_size (gpu_topology keys cfg) = 1 \<longrightarrow>
            coordinator = None \<and>
            (\<forall>r w a p. Call_XlaCoordinator_Create r w a p \<notin> set tr))
       \<and> (global_world_size (gpu_topology keys cfg) > 1 \<longrightarrow>
            (\<exists>c a p. coordinator = Some c \<and>
               Call_XlaCoordinator_Create (global_process_rank (gpu_topology keys cfg))
                 (global_world_size (gpu_topology keys cfg)) a p \<in> set tr \<and>
               XlaCoordinator_Create ext (global_process_rank (gpu_topology keys cfg))
                 (global_world_size (gpu_topology keys cfg)) a p = Inr c))"
  using assms
  by (auto simp: InitializePjRt_def InitializePjRt_dispatch_def InitializePjRt_cuda_def Let_def
           split: sum.splits option.splits if_splits prod.splits)

lemma sample_cuda_single:
  "InitializePjRt sample_externals sample_env_vars (sample_sys_util Map.empty)
     pjrt_plugins_init ''CUDA''
   = ([Call_TORCH_WARN cuda_deprecation_warning,
       Call_GetStreamExecutorGpuClient
         \<lparr> allocator_config = \<lparr> kind = kDefault, memory_fraction = 0.75, preallocate = True \<rparr>,
           node_id = 0, num_nodes = 1, allowed_devices = None, platform_name = ''gpu'',
           should_stage_host_to_device_transfers = True, kv_store = None \<rparr>],
      ReturnOk (PjRtClient 3) None)"
  by (simp add: init_defs getenv_defs sample_defs gpu_topology_def gpu_client_options_def
        GetGpuAllocatorConfig_def)

lemma sample_cuda_multi:
  "InitializePjRt sample_externals sample_env_vars
     (sample_sys_util [''PJRT_LOCAL_PROCESS_RANK'' \<mapsto> ''1'', ''RANK'' \<mapsto> ''3'',
                       ''LOCAL_WORLD_SIZE'' \<mapsto> ''2'', ''WORLD_SIZE'' \<mapsto> ''4''])
     pjrt_plugins_init ''CUDA''
   = ([Call_TORCH_WARN cuda_deprecation_warning,
       Call_XlaCoordinator_Create 3 4 ''localhost'' ''8547'',
       Call_GetStreamExecutorGpuClient
         \<lparr> allocator_config = \<lparr> kind = kDefault, memory_fraction = 0.75, preallocate = True \<rparr>,
           node_id = 3, num_nodes = 4, allowed_devices = Some {1}, platform_name = ''gpu'',
           should_stage_host_to_device_transfers = True,
           kv_store = Some (GetDistributedKeyValueStore (DistributedRuntimeClient 7) ''gpu:'') \<rparr>],
      ReturnOk (PjRtClient 3) (Some (XlaCoordinator 7)))"
  by (simp add: init_defs getenv_defs sample_defs gpu_topology_def gpu_client_options_def
        GetGpuAllocatorConfig_def)

lemma sample_cuda_topology:
  "gpu_topology sample_env_vars (sample_sys_util Map.empty) =
     \<lparr> local_process_rank = 0, global_process_rank = 0,
       local_world_size = 1, global_world_size = 1 \<rparr>"
  "gpu_topology sample_env_vars
     (sample_sys_util [''PJRT_LOCAL_PROCESS_RANK'' \<mapsto> ''1'', ''RANK'' \<mapsto> ''3'',
                       ''LOCAL_WORLD_SIZE'' \<mapsto> ''2'', ''WORLD_SIZE'' \<mapsto> ''4'']) =
     \<lparr> local_process_rank = 1, global_process_rank = 3,
       local_world_size = 2, global_world_size = 4 \<rparr>"
  by (simp_all add: gpu_topology_def getenv_defs sample_defs)

lemma sample_flag_off:
  "\<not> GetEnvBool (sample_sys_util Map.empty) (kEnvPjrtDynamicPlugins sample_env_vars) False"
  "\<not> GetEnvBool
       (sample_sys_util [''PJRT_LOCAL_PROCESS_RANK'' \<mapsto> ''1'', ''RANK'' \<mapsto> ''3'',
                         ''LOCAL_WORLD_SIZE'' \<mapsto> ''2'', ''WORLD_SIZE'' \<mapsto> ''4''])
       (kEnvPjrtDynamicPlugins sample_env_vars) False"
  by (simp_all add: getenv_defs sample_defs)

theorem InitializePjRt_cuda_coordinator_witness:
  "snd (InitializePjRt sample_externals sample_env_vars (sample_sys_util Map.empty)
          pjrt_plugins_init ''CUDA'') = ReturnOk (PjRtClient 3) None
   \<and> global_world_size (gpu_topology sample_env_vars (sample_sys_util Map.empty)) = 1
   \<and> snd (InitializePjRt sample_externals sample_env_vars
            (sample_sys_util [''PJRT_LOCAL_PROCESS_RANK'' \<mapsto> ''1'', ''RANK'' \<mapsto> ''3'',
                              ''LOCAL_WORLD_SIZE'' \<mapsto> ''2'', ''WORLD_SIZE'' \<mapsto> ''4''])
            pjrt_plugins_init ''CUDA'') = ReturnOk (PjRtClient 3) (Some (XlaCoordinator 7))
   \<and> global_world_size
        (gpu_topology sample_env_vars
           (sample_sys_util [''PJRT_LOCAL_PROCESS_RANK'' \<mapsto> ''1'', ''RANK'' \<mapsto> ''3'',
                             ''LOCAL_WORLD_SIZE'' \<mapsto> ''2'', ''WORLD_SIZE'' \<mapsto> ''4''])) > 1"
proof -
  note r0 = InitializePjRt_cuda_coordinator [OF sample_flag_off(1) sample_cuda_single]
  note r1 = InitializePjRt_cuda_coordinator [OF sample_flag_off(2) sample_cuda_multi]
  from r0 r1 show ?thesis
    by (simp add: sample_cuda_single sample_cuda_multi sample_cuda_topology)
qed

text \<open>
  Claim C6. On the \<^verbatim>\<open>"CUDA"\<close> path (dynamic-plugins flag not enabled), the options
  handed to \<^verbatim>\<open>GetStreamExecutorGpuClient\<close> have \<open>allowed_devices\<close> equal to the singleton
  of the resolved local rank when the resolved local world size is greater than 1, and
  empty (no restriction) when it is 1. Every call that returns a client has made that
  call to the client construction.
\<close>

theorem InitializePjRt_cuda_allowed_devices:
  assumes "\<not> GetEnvBool cfg (kEnvPjrtDynamicPlugins keys) False"
  shows "(\<forall>opts. Call_GetStreamExecutorGpuClient opts
                   \<in> set (fst (InitializePjRt ext keys cfg pjrt_plugins ''CUDA'')) \<longrightarrow>
            (local_world_size (gpu_topology keys cfg) > 1 \<longrightarrow>
               allowed_devices opts = Some {local_process_rank (gpu_topology keys cfg)}) \<and>
            (local_world_size (gpu_topology keys cfg) = 1 \<longrightarrow> allowed_devices opts = None))
       \<and> (\<forall>client coordinator.
            snd (InitializePjRt ext keys cfg pjrt_plugins ''CUDA'')
              = ReturnOk client coordinator \<longrightarrow>
            (\<exists>opts. Call_GetStreamExecutorGpuClient opts
                      \<in> set (fst (InitializePjRt ext keys cfg pjrt_plugins ''CUDA'')) \<and>
                    GetStreamExecutorGpuClient ext opts = Inr (Some client)))"
  using assms
  by (auto simp: InitializePjRt_def InitializePjRt_dispatch_def InitializePjRt_cuda_def Let_def
           gpu_client_options_def
           split: sum.splits option.splits if_splits prod.splits)

theorem InitializePjRt_cuda_allowed_devices_witness:
  "local_world_size (gpu_topology sample_env_vars (sample_sys_util Map.empty)) = 1
   \<and> Call_GetStreamExecutorGpuClient
        \<lparr> allocator_config = \<lparr> kind = kDefault, memory_fraction = 0.75, preallocate = True \<rparr>,
          node_id = 0, num_nodes = 1, allowed_devices = None, platform_name = ''gpu'',
          should_stage_host_to_device_transfers = True, kv_store = None \<rparr>
        \<in> set (fst (InitializePjRt sample_externals sample_env_vars
                      (sample_sys_util Map.empty) pjrt_plugins_init ''CUDA''))
   \<and> local_world_size
        (gpu_topology sample_env_vars
           (sample_sys_util [''PJRT_LOCAL_PROCESS_RANK'' \<mapsto> ''1'', ''RANK'' \<mapsto> ''3'',
                             ''LOCAL_WORLD_SIZE'' \<mapsto> ''2'', ''WORLD_SIZE'' \<mapsto> ''4''])) > 1
   \<and> local_process_rank
        (gpu_topology sample_env_vars
           (sample_sys_util [''PJRT_LOCAL_PROCESS_RANK'' \<mapsto> ''1'', ''RANK'' \<mapsto> ''3'',
                             ''LOCAL_WORLD_SIZE'' \<mapsto> ''2'', ''WORLD_SIZE'' \<mapsto> ''4''])) = 1
   \<and> Call_GetStreamExecutorGpuClient
        \<lparr> allocator_config = \<lparr> kind = kDefault, memory_fraction = 0.75, preallocate = True \<rparr>,
          node_id = 3, num_nodes = 4, allowed_devices = Some {1}, platform_name = ''gpu'',
          should_stage_host_to_device_transfers = True,
          kv_store = Some (GetDistributedKeyValueStore (DistributedRuntimeClient 7) ''gpu:'') \<rparr>
        \<in> set (fst (InitializePjRt sample_externals sample_env_vars
             (sample_sys_util [''PJRT_LOCAL_PROCESS_RANK'' \<mapsto> ''1'', ''RANK'' \<mapsto> ''3'',
                               ''LOCAL_WORLD_SIZE'' \<mapsto> ''2'', ''WORLD_SIZE'' \<mapsto> ''4''])
             pjrt_plugins_init ''CUDA''))"
proof -
  note r0 = InitializePjRt_cuda_allowed_devices
              [OF sample_flag_off(1), of sample_externals pjrt_plugins_init]
  note r1 = InitializePjRt_cuda_allowed_devices
              [OF sample_flag_off(2), of sample_externals pjrt_plugins_init]
  from r0 r1 show ?thesis
    by (simp add: sample_cuda_single sample_cuda_multi sample_cuda_topology)
qed

subsection \<open>The dynamic-plugin path\<close>

text \<open>
  Claim C5, amended. On the dynamic-plugin path, when the plugin requires the
  coordinator, the key-value store handed to \<^verbatim>\<open>GetCApiClient\<close> is the store of the
  created coordinator's distributed client under the key prefix \<^verbatim>\<open>"pjrt:"\<close>. Every call
  that returns a client has made that call to the client construction.
\<close>

theorem InitializePjRt_plugin_kv_prefix:
  assumes "GetEnvBool cfg (kEnvPjrtDynamicPlugins keys) False"
    and "device_type \<noteq> ''CPU''"
    and "GetPjRtPlugin pjrt_plugins device_type = Some plugin"
    and "requires_xla_coordinator plugin"
  shows "(\<forall>name opts kvs.
            Call_GetCApiClient name opts kvs
              \<in> set (fst (InitializePjRt ext keys cfg pjrt_plugins device_type)) \<longrightarrow>
            (\<exists>c a p.
               XlaCoordinator_Create ext (global_process_rank (plugin_topology keys cfg))
                 (global_world_size (plugin_topology keys cfg)) a p = Inr c \<and>
               kvs = Some (GetDistributedKeyValueStore (XlaCoordinator_GetClient ext c)
                             ''pjrt:'')))
       \<and> (\<forall>client coordinator.
            snd (InitializePjRt ext keys cfg pjrt_plugins device_type)
              = ReturnOk client coordinator \<longrightarrow>
            (\<exists>name opts kvs.
               Call_GetCApiClient name opts kvs
                 \<in> set (fst (InitializePjRt ext keys cfg pjrt_plugins device_type)) \<and>
               GetCApiClient ext name opts kvs = Inr (Some client)))"
  using assms
  by (auto simp: InitializePjRt_def InitializePjRt_dispatch_def InitializePjRt_plugin_def
           InitializePjRt_plugin_client_def Let_def
           split: sum.splits option.splits if_splits prod.splits)

lemma sample_plugin_run:
  "InitializePjRt sample_externals sample_env_vars
     (sample_sys_util [''PJRT_DYNAMIC_PLUGINS'' \<mapsto> ''1'', ''WORLD_SIZE'' \<mapsto> ''2''])
     sample_registry ''MYACCEL''
   = ([Call_InitializeLog,
       Call_XlaCoordinator_Create 0 2 ''localhost'' ''8547'',
       Call_LoadPjrtPlugin ''myaccel'' ''libmyaccel.so'',
       Call_InitializePjrtPlugin ''MYACCEL'',
       Call_GetCApiClient ''MYACCEL'' Map.empty
         (Some (GetDistributedKeyValueStore (DistributedRuntimeClient 7) ''pjrt:'')),
       Call_RegisterProfilerForPlugin (PJRT_Api 1)],
      ReturnOk (PjRtClient 1) (Some (XlaCoordinator 7)))"
  by (simp add: init_defs getenv_defs sample_defs plugin_topology_def
        AsciiStrToLower_MYACCEL AsciiStrToUpper_MYACCEL)

theorem InitializePjRt_plugin_kv_prefix_witness:
  "GetEnvBool (sample_sys_util [''PJRT_DYNAMIC_PLUGINS'' \<mapsto> ''1'', ''WORLD_SIZE'' \<mapsto> ''2''])
     (kEnvPjrtDynamicPlugins sample_env_vars) False
   \<and> ''MYACCEL'' \<noteq> ''CPU''
   \<and> GetPjRtPlugin sample_registry ''MYACCEL'' = Some sample_plugin
   \<and> requires_xla_coordinator sample_plugin
   \<and> Call_GetCApiClient ''MYACCEL'' Map.empty
        (Some (GetDistributedKeyValueStore (DistributedRuntimeClient 7) ''pjrt:''))
        \<in> set (fst (InitializePjRt sample_externals sample_env_vars
              (sample_sys_util [''PJRT_DYNAMIC_PLUGINS'' \<mapsto> ''1'', ''WORLD_SIZE'' \<mapsto> ''2''])
              sample_registry ''MYACCEL''))
   \<and> snd (InitializePjRt sample_externals sample_env_vars
              (sample_sys_util [''PJRT_DYNAMIC_PLUGINS'' \<mapsto> ''1'', ''WORLD_SIZE'' \<mapsto> ''2''])
              sample_registry ''MYACCEL'')
       = ReturnOk (PjRtClient 1) (Some (XlaCoordinator 7))"
proof -
  let ?c = "sample_sys_util [''PJRT_DYNAMIC_PLUGINS'' \<mapsto> ''1'', ''WORLD_SIZE'' \<mapsto> ''2'']"
  have h1: "GetEnvBool ?c (kEnvPjrtDynamicPlugins sample_env_vars) False"
    by (simp add: GetEnvBool_def sample_defs)
  have h2: "''MYACCEL'' \<noteq> ''CPU''" by simp
  have h3: "GetPjRtPlugin sample_registry ''MYACCEL'' = Some sample_plugin"
    by (simp add: GetPjRtPlugin_def sample_registry_def RegisterPjRtPlugin_def)
  have h4: "requires_xla_coordinator sample_plugin"
    by (simp add: sample_plugin_def)
  from InitializePjRt_plugin_kv_prefix [OF h1 h2 h3 h4, of sample_externals] h1 h2 h3 h4
  show ?thesis
    by (simp add: sample_plugin_run)
qed

text \<open>
  Claim C5 as stated fails: the prefix of the source is \<^verbatim>\<open>"pjrt:"\<close>, not
  \<^verbatim>\<open>"plugin:"\<close>. For the plugin \<^verbatim>\<open>"MYACCEL"\<close>, which requires the coordinator, the
  client construction receives the store with prefix \<^verbatim>\<open>"pjrt:"\<close> and no call receives
  one with prefix \<^verbatim>\<open>"plugin:"\<close>.
\<close>

theorem InitializePjRt_plugin_kv_prefix_counterexample:
  "Call_GetCApiClient ''MYACCEL'' Map.empty
     (Some (GetDistributedKeyValueStore (DistributedRuntimeClient 7) ''pjrt:''))
     \<in> set (fst (InitializePjRt sample_externals sample_env_vars
           (sample_sys_util [''PJRT_DYNAMIC_PLUGINS'' \<mapsto> ''1'', ''WORLD_SIZE'' \<mapsto> ''2''])
           sample_registry ''MYACCEL''))
   \<and> Call_GetCApiClient ''MYACCEL'' Map.empty
     (Some (GetDistributedKeyValueStore (DistributedRuntimeClient 7) ''plugin:''))
     \<notin> set (fst (InitializePjRt sample_externals sample_env_vars
           (sample_sys_util [''PJRT_DYNAMIC_PLUGINS'' \<mapsto> ''1'', ''WORLD_SIZE'' \<mapsto> ''2''])
           sample_registry ''MYACCEL''))"
  by (simp add: sample_plugin_run)

end
